theory Spec2Isabelle
  imports Main
begin

section \<open>Data model (states.ts)\<close>

text \<open>
  The workflow engine of \<^verbatim>\<open>ship\<close> is a pure transition function over tagged unions of
  states, events and effects. The interfaces of \<^verbatim>\<open>states.ts\<close> become records, the tagged
  unions become datatypes whose constructors carry the fields of the variant in the order
  the source lists them. JavaScript numbers that hold counts and indices are modelled as
  \<^typ>\<open>int\<close> (the executor produces them with \<^verbatim>\<open>parseInt\<close> or by adding one to an index).
  A \<^verbatim>\<open>NaN\<close> from \<^verbatim>\<open>parseInt\<close> on unexpected command output is outside the model.
\<close>

record GitContext =
  currentBranch :: string
  onMain :: bool
  hasStaged :: bool
  hasUnstaged :: bool
  hasUntracked :: bool
  hasChanges :: bool
  hasUpstream :: bool
  unpushedCount :: int
  unmergedCount :: int
  untrackedRaw :: string

datatype FileStatus = Staged | Modified | New

record FileEntry =
  path :: string
  status :: FileStatus

record CommitDetails =
  branchName :: string
  commitMessage :: string
  prTitle :: string
  prBody :: string

text \<open>
  Field names are global in a record declaration, so the fields of \<^verbatim>\<open>PrDetails\<close>,
  \<^verbatim>\<open>StackGroup\<close> and \<^verbatim>\<open>StackPlan\<close> that share a name with a field of
  \<^verbatim>\<open>CommitDetails\<close> carry a prefix: \<^verbatim>\<open>pr_\<close>, \<^verbatim>\<open>group_\<close> and \<^verbatim>\<open>plan_\<close>.
\<close>

record PrDetails =
  pr_prTitle :: string
  pr_prBody :: string

record StackGroup =
  files :: "string list"
  group_commitMessage :: string

record StackPlan =
  groups :: "StackGroup list"
  plan_branchName :: string
  plan_prTitle :: string
  plan_prBody :: string

datatype CommitAction = Accept | Edit | Cancel

datatype PostCommitChoice = Choice_create_pr | Choice_push_only | Choice_commit_more | Choice_done

datatype PostPush = PostPush_check_pr | PostPush_done

text \<open>
  The states are the variants that \<^verbatim>\<open>transition\<close> dispatches on and constructs in
  \<^verbatim>\<open>transitions.ts\<close>: besides the variants declared in \<^verbatim>\<open>states.ts\<close> these are
  \<^verbatim>\<open>post_commit_checking_pr\<close> and the optional \<^verbatim>\<open>prUrl\<close> of \<^verbatim>\<open>post_commit\<close>
  (absent is \<^const>\<open>None\<close>).
\<close>

datatype State =
    Preflight
  | Fast_path_logging GitContext
  | Fast_path_pushing GitContext string
  | Fast_path_checking_pr GitContext
  | Fast_path_generating_pr GitContext string
  | Fast_path_confirming_pr GitContext PrDetails
  | Fast_path_creating_pr GitContext PrDetails
  | Fast_path_confirming_merge GitContext string
  | Fast_path_merging GitContext string
  | Collecting_files GitContext
  | Picking_files GitContext "FileEntry list"
  | Staging_files GitContext "string list"
  | Getting_diff GitContext
  | Generating_details GitContext string
  | Confirming_branch GitContext CommitDetails
  | Confirming_commit GitContext CommitDetails string
  | Editing_commit GitContext CommitDetails string
  | Committing GitContext CommitDetails string string
  | Post_commit_checking_pr GitContext CommitDetails string
  | Post_commit GitContext CommitDetails string "string option"
  | Pushing GitContext string CommitDetails PostPush
  | Checking_pr GitContext CommitDetails string
  | Confirming_pr GitContext CommitDetails string
  | Stack_committing GitContext StackPlan int
  | Creating_pr GitContext CommitDetails string
  | Confirming_merge GitContext string string
  | Merging GitContext string string
  | Checking_remote GitContext
  | Confirming_pull GitContext int
  | Pulling GitContext
  | Done string
  | Cancelled string
  | Error string
  | Nothing_to_ship
  | Merge_conflict GitContext string

datatype Event =
    Tools_ok GitContext
  | Commit_log_ready string
  | Push_done
  | Pr_exists string
  | No_pr
  | Diff_ready string
  | Pr_details_generated PrDetails
  | Pr_details_failed
  | Confirm_pr bool
  | Pr_created string
  | Confirm_merge bool
  | Merge_done string
  | Files_collected "FileEntry list"
  | Files_picked "string list"
  | Files_staged string
  | Details_generated CommitDetails
  | Details_failed
  | Branch_confirmed string
  | Commit_action CommitAction
  | Commit_edited string
  | Commit_done
  | Pr_skip
  | Merge_skip string string
  | User_cancelled
  | Remote_status int
  | Confirm_pull bool
  | Pull_done
  | Pull_conflict string
  | Post_commit_choice PostCommitChoice
  | Stack_plan_generated StackPlan
  | Stack_commit_done int

text \<open>
  The \<^verbatim>\<open>group\<close> of \<^verbatim>\<open>execute_stack_commit\<close> is read from the plan by index. An index
  outside the array gives \<^verbatim>\<open>undefined\<close> in JavaScript (the \<^verbatim>\<open>!\<close> of the source is
  erased at run time), so the field is an option and \<^const>\<open>None\<close> is \<^verbatim>\<open>undefined\<close>.
  The argument order is group, branchName, isFirst, onMain, index.
\<close>

datatype Effect =
    Check_tools
  | Log_info string
  | Show_note string string
  | Show_commit_log GitContext
  | Push_branch string
  | Check_existing_pr string
  | Get_diff_main
  | Generate_pr_details string
  | Prompt_confirm_pr PrDetails
  | Create_pr string PrDetails
  | Log_pr_found string
  | Log_pr_created string
  | Prompt_confirm_merge string
  | Merge_and_cleanup string bool
  | Collect_files GitContext
  | Prompt_file_picker "FileEntry list"
  | Stage_files "string list"
  | Get_staged_diff
  | Generate_commit_details string
  | Prompt_branch_name string
  | Show_commit_message string
  | Prompt_commit_action
  | Open_editor string
  | Commit_only string string bool
  | Log_pr_exists string
  | Show_pr_details CommitDetails
  | Prompt_create_pr CommitDetails
  | Create_full_pr string CommitDetails
  | Log_merge_skip string string bool
  | Log_pr_skip string
  | Unstage_all
  | Check_remote_status string
  | Prompt_confirm_pull int
  | Pull_remote string
  | Prompt_post_commit "string option"
  | Execute_stack_commit "StackGroup option" string bool bool int

record Transition =
  state :: State
  effects :: "Effect list"

fun isTerminal :: "State \<Rightarrow> bool" where
  "isTerminal (Done _) = True"
| "isTerminal (Cancelled _) = True"
| "isTerminal (Error _) = True"
| "isTerminal Nothing_to_ship = True"
| "isTerminal (Merge_conflict _ _) = True"
| "isTerminal _ = False"

section \<open>The transition function (transitions.ts)\<close>

text \<open>The \<^verbatim>\<open>kind\<close> tag of a state and of an event, as the string the source stores.\<close>

fun state_kind :: "State \<Rightarrow> string" where
  "state_kind Preflight = ''preflight''"
| "state_kind (Fast_path_logging _) = ''fast_path_logging''"
| "state_kind (Fast_path_pushing _ _) = ''fast_path_pushing''"
| "state_kind (Fast_path_checking_pr _) = ''fast_path_checking_pr''"
| "state_kind (Fast_path_generating_pr _ _) = ''fast_path_generating_pr''"
| "state_kind (Fast_path_confirming_pr _ _) = ''fast_path_confirming_pr''"
| "state_kind (Fast_path_creating_pr _ _) = ''fast_path_creating_pr''"
| "state_kind (Fast_path_confirming_merge _ _) = ''fast_path_confirming_merge''"
| "state_kind (Fast_path_merging _ _) = ''fast_path_merging''"
| "state_kind (Collecting_files _) = ''collecting_files''"
| "state_kind (Picking_files _ _) = ''picking_files''"
| "state_kind (Staging_files _ _) = ''staging_files''"
| "state_kind (Getting_diff _) = ''getting_diff''"
| "state_kind (Generating_details _ _) = ''generating_details''"
| "state_kind (Confirming_branch _ _) = ''confirming_branch''"
| "state_kind (Confirming_commit _ _ _) = ''confirming_commit''"
| "state_kind (Editing_commit _ _ _) = ''editing_commit''"
| "state_kind (Committing _ _ _ _) = ''committing''"
| "state_kind (Post_commit_checking_pr _ _ _) = ''post_commit_checking_pr''"
| "state_kind (Post_commit _ _ _ _) = ''post_commit''"
| "state_kind (Pushing _ _ _ _) = ''pushing''"
| "state_kind (Checking_pr _ _ _) = ''checking_pr''"
| "state_kind (Confirming_pr _ _ _) = ''confirming_pr''"
| "state_kind (Stack_committing _ _ _) = ''stack_committing''"
| "state_kind (Creating_pr _ _ _) = ''creating_pr''"
| "state_kind (Confirming_merge _ _ _) = ''confirming_merge''"
| "state_kind (Merging _ _ _) = ''merging''"
| "state_kind (Checking_remote _) = ''checking_remote''"
| "state_kind (Confirming_pull _ _) = ''confirming_pull''"
| "state_kind (Pulling _) = ''pulling''"
| "state_kind (Done _) = ''done''"
| "state_kind (Cancelled _) = ''cancelled''"
| "state_kind (Error _) = ''error''"
| "state_kind Nothing_to_ship = ''nothing_to_ship''"
| "state_kind (Merge_conflict _ _) = ''merge_conflict''"

fun event_kind :: "Event \<Rightarrow> string" where
  "event_kind (Tools_ok _) = ''tools_ok''"
| "event_kind (Commit_log_ready _) = ''commit_log_ready''"
| "event_kind Push_done = ''push_done''"
| "event_kind (Pr_exists _) = ''pr_exists''"
| "event_kind No_pr = ''no_pr''"
| "event_kind (Diff_ready _) = ''diff_ready''"
| "event_kind (Pr_details_generated _) = ''pr_details_generated''"
| "event_kind Pr_details_failed = ''pr_details_failed''"
| "event_kind (Confirm_pr _) = ''confirm_pr''"
| "event_kind (Pr_created _) = ''pr_created''"
| "event_kind (Confirm_merge _) = ''confirm_merge''"
| "event_kind (Merge_done _) = ''merge_done''"
| "event_kind (Files_collected _) = ''files_collected''"
| "event_kind (Files_picked _) = ''files_picked''"
| "event_kind (Files_staged _) = ''files_staged''"
| "event_kind (Details_generated _) = ''details_generated''"
| "event_kind Details_failed = ''details_failed''"
| "event_kind (Branch_confirmed _) = ''branch_confirmed''"
| "event_kind (Commit_action _) = ''commit_action''"
| "event_kind (Commit_edited _) = ''commit_edited''"
| "event_kind Commit_done = ''commit_done''"
| "event_kind Pr_skip = ''pr_skip''"
| "event_kind (Merge_skip _ _) = ''merge_skip''"
| "event_kind User_cancelled = ''user_cancelled''"
| "event_kind (Remote_status _) = ''remote_status''"
| "event_kind (Confirm_pull _) = ''confirm_pull''"
| "event_kind Pull_done = ''pull_done''"
| "event_kind (Pull_conflict _) = ''pull_conflict''"
| "event_kind (Post_commit_choice _) = ''post_commit_choice''"
| "event_kind (Stack_plan_generated _) = ''stack_plan_generated''"
| "event_kind (Stack_commit_done _) = ''stack_commit_done''"

text \<open>
  \<^verbatim>\<open>invalid\<close>: the error outcome of an event the state does not handle. The message is
  the template string \<^verbatim>\<open>Unexpected event "${event.kind}" in state "${state.kind}"\<close>.
\<close>

definition invalid :: "State \<Rightarrow> Event \<Rightarrow> Transition" where
  \<open>invalid st ev =
     \<lparr>state = Error (''Unexpected event "'' @ event_kind ev @ ''" in state "'' @ state_kind st @ ''"''),
      effects = []\<rparr>\<close>

definition continueAfterPullCheck :: "GitContext \<Rightarrow> Transition" where
  "continueAfterPullCheck git =
     (if \<not> hasChanges git \<and> unpushedCount git = 0 \<and> unmergedCount git = 0
      then \<lparr>state = Nothing_to_ship, effects = []\<rparr>
      else if \<not> hasChanges git \<and> (unpushedCount git > 0 \<or> unmergedCount git > 0)
      then \<lparr>state = Fast_path_logging git, effects = [Show_commit_log git]\<rparr>
      else \<lparr>state = Collecting_files git, effects = [Collect_files git]\<rparr>)"

text \<open>
  \<^verbatim>\<open>arr[i]\<close> on a JavaScript array: the element when \<open>0 \<le> i < length\<close>,
  \<^verbatim>\<open>undefined\<close> otherwise.
\<close>

definition at_index :: "'a list \<Rightarrow> int \<Rightarrow> 'a option" where
  "at_index xs i = (if 0 \<le> i \<and> i < int (length xs) then Some (xs ! nat i) else None)"

text \<open>\<^verbatim>\<open>Array.prototype.join\<close> on an array of strings.\<close>

fun join :: "string \<Rightarrow> string list \<Rightarrow> string" where
  "join sep [] = []"
| "join sep [x] = x"
| "join sep (x # y # ys) = x @ sep @ join sep (y # ys)"

definition startStackCommitting :: "GitContext \<Rightarrow> StackPlan \<Rightarrow> Transition" where
  "startStackCommitting git plan =
     \<lparr>state = Stack_committing git plan 0,
      effects = [Execute_stack_commit (at_index (groups plan) 0) (plan_branchName plan) True (onMain git) 0]\<rparr>"

fun transition :: "State \<Rightarrow> Event \<Rightarrow> Transition" where
  "transition Preflight ev =
     (case ev of
        Tools_ok git \<Rightarrow>
          if \<not> hasChanges git \<and> unpushedCount git = 0 \<and> unmergedCount git = 0
          then \<lparr>state = Nothing_to_ship, effects = []\<rparr>
          else if \<not> onMain git \<and> hasUpstream git
          then \<lparr>state = Checking_remote git, effects = [Check_remote_status (currentBranch git)]\<rparr>
          else continueAfterPullCheck git
      | _ \<Rightarrow> invalid Preflight ev)"
| "transition (Checking_remote git) ev =
     (case ev of
        Remote_status behind \<Rightarrow>
          if behind > 0
          then \<lparr>state = Confirming_pull git behind, effects = [Prompt_confirm_pull behind]\<rparr>
          else continueAfterPullCheck git
      | _ \<Rightarrow> invalid (Checking_remote git) ev)"
| "transition (Confirming_pull git behind) ev =
     (case ev of
        Confirm_pull accepted \<Rightarrow>
          if accepted
          then \<lparr>state = Pulling git, effects = [Pull_remote (currentBranch git)]\<rparr>
          else continueAfterPullCheck git
      | _ \<Rightarrow> invalid (Confirming_pull git behind) ev)"
| "transition (Pulling git) ev =
     (case ev of
        Pull_done \<Rightarrow> \<lparr>state = Preflight, effects = [Check_tools]\<rparr>
      | Pull_conflict message \<Rightarrow> \<lparr>state = Merge_conflict git message, effects = []\<rparr>
      | _ \<Rightarrow> invalid (Pulling git) ev)"
| "transition (Fast_path_logging git) ev =
     (case ev of
        Commit_log_ready commitLog \<Rightarrow>
          if unpushedCount git > 0
          then \<lparr>state = Fast_path_pushing git commitLog, effects = [Push_branch (currentBranch git)]\<rparr>
          else \<lparr>state = Fast_path_checking_pr git, effects = [Check_existing_pr (currentBranch git)]\<rparr>
      | _ \<Rightarrow> invalid (Fast_path_logging git) ev)"
| "transition (Fast_path_pushing git commitLog) ev =
     (case ev of
        Push_done \<Rightarrow>
          \<lparr>state = Fast_path_checking_pr git, effects = [Check_existing_pr (currentBranch git)]\<rparr>
      | _ \<Rightarrow> invalid (Fast_path_pushing git commitLog) ev)"
| "transition (Fast_path_checking_pr git) ev =
     (case ev of
        Pr_exists prUrl \<Rightarrow>
          \<lparr>state = Fast_path_confirming_merge git prUrl,
           effects = [Log_pr_found prUrl, Prompt_confirm_merge prUrl]\<rparr>
      | No_pr \<Rightarrow> \<lparr>state = Fast_path_generating_pr git '''', effects = [Get_diff_main]\<rparr>
      | _ \<Rightarrow> invalid (Fast_path_checking_pr git) ev)"
| "transition (Fast_path_generating_pr git diff) ev =
     (case ev of
        Diff_ready diff' \<Rightarrow>
          \<lparr>state = Fast_path_generating_pr git diff', effects = [Generate_pr_details diff']\<rparr>
      | Pr_details_generated prDetails \<Rightarrow>
          \<lparr>state = Fast_path_confirming_pr git prDetails, effects = [Prompt_confirm_pr prDetails]\<rparr>
      | Pr_details_failed \<Rightarrow>
          \<lparr>state = Done ''Branch pushed. Create PR manually.'', effects = []\<rparr>
      | User_cancelled \<Rightarrow>
          \<lparr>state = Done ''Branch pushed. Create PR manually.'', effects = []\<rparr>
      | _ \<Rightarrow> invalid (Fast_path_generating_pr git diff) ev)"
| "transition (Fast_path_confirming_pr git prDetails) ev =
     (case ev of
        Confirm_pr accepted \<Rightarrow>
          if \<not> accepted
          then \<lparr>state = Done ''Branch pushed.'', effects = [Log_pr_skip (currentBranch git)]\<rparr>
          else \<lparr>state = Fast_path_creating_pr git prDetails,
                effects = [Create_pr (currentBranch git) prDetails]\<rparr>
      | _ \<Rightarrow> invalid (Fast_path_confirming_pr git prDetails) ev)"
| "transition (Fast_path_creating_pr git prDetails) ev =
     (case ev of
        Pr_created prUrl \<Rightarrow>
          \<lparr>state = Fast_path_confirming_merge git prUrl,
           effects = [Log_pr_created prUrl, Prompt_confirm_merge prUrl]\<rparr>
      | _ \<Rightarrow> invalid (Fast_path_creating_pr git prDetails) ev)"
| "transition (Fast_path_confirming_merge git prUrl) ev =
     (case ev of
        Confirm_merge accepted \<Rightarrow>
          if \<not> accepted
          then \<lparr>state = Done (''PR open: '' @ prUrl),
                effects = [Log_merge_skip prUrl (currentBranch git) (onMain git)]\<rparr>
          else \<lparr>state = Fast_path_merging git prUrl, effects = [Merge_and_cleanup prUrl (onMain git)]\<rparr>
      | _ \<Rightarrow> invalid (Fast_path_confirming_merge git prUrl) ev)"
| "transition (Fast_path_merging git prUrl) ev =
     (case ev of
        Merge_done prUrl' \<Rightarrow> \<lparr>state = Done (''Shipped! '' @ prUrl'), effects = []\<rparr>
      | _ \<Rightarrow> invalid (Fast_path_merging git prUrl) ev)"
| "transition (Collecting_files git) ev =
     (case ev of
        Files_collected fs \<Rightarrow> \<lparr>state = Picking_files git fs, effects = [Prompt_file_picker fs]\<rparr>
      | _ \<Rightarrow> invalid (Collecting_files git) ev)"
| "transition (Picking_files git fs) ev =
     (case ev of
        User_cancelled \<Rightarrow> \<lparr>state = Cancelled ''Cancelled.'', effects = []\<rparr>
      | Stack_plan_generated plan \<Rightarrow> startStackCommitting git plan
      | Files_picked selectedFiles \<Rightarrow>
          \<lparr>state = Staging_files git selectedFiles, effects = [Stage_files selectedFiles]\<rparr>
      | _ \<Rightarrow> invalid (Picking_files git fs) ev)"
| "transition (Staging_files git selectedFiles) ev =
     (case ev of
        Files_staged shortStat \<Rightarrow>
          \<lparr>state = Getting_diff git, effects = [Log_info shortStat, Get_staged_diff]\<rparr>
      | _ \<Rightarrow> invalid (Staging_files git selectedFiles) ev)"
| "transition (Getting_diff git) ev =
     (case ev of
        Diff_ready diff \<Rightarrow>
          \<lparr>state = Generating_details git diff, effects = [Generate_commit_details diff]\<rparr>
      | _ \<Rightarrow> invalid (Getting_diff git) ev)"
| "transition (Generating_details git diff) ev =
     (case ev of
        Details_generated details \<Rightarrow>
          if onMain git
          then \<lparr>state = Confirming_branch git details,
                effects = [Prompt_branch_name (branchName details)]\<rparr>
          else \<lparr>state = Confirming_commit git details (currentBranch git),
                effects = [Show_commit_message (commitMessage details), Prompt_commit_action]\<rparr>
      | Details_failed \<Rightarrow> \<lparr>state = Cancelled ''Aborted.'', effects = [Unstage_all]\<rparr>
      | User_cancelled \<Rightarrow> \<lparr>state = Cancelled ''Aborted.'', effects = [Unstage_all]\<rparr>
      | _ \<Rightarrow> invalid (Generating_details git diff) ev)"
| "transition (Confirming_branch git details) ev =
     (case ev of
        User_cancelled \<Rightarrow> \<lparr>state = Cancelled ''Cancelled.'', effects = [Unstage_all]\<rparr>
      | Branch_confirmed branch \<Rightarrow>
          \<lparr>state = Confirming_commit git details branch,
           effects = [Show_commit_message (commitMessage details), Prompt_commit_action]\<rparr>
      | _ \<Rightarrow> invalid (Confirming_branch git details) ev)"
| "transition (Confirming_commit git details branch) ev =
     (case ev of
        Commit_action action \<Rightarrow>
          (case action of
             Cancel \<Rightarrow> \<lparr>state = Cancelled ''Aborted.'', effects = [Unstage_all]\<rparr>
           | Edit \<Rightarrow>
               \<lparr>state = Editing_commit git details branch,
                effects = [Open_editor (commitMessage details)]\<rparr>
           | Accept \<Rightarrow>
               \<lparr>state = Committing git details branch (commitMessage details),
                effects = [Commit_only branch (commitMessage details) (onMain git)]\<rparr>)
      | _ \<Rightarrow> invalid (Confirming_commit git details branch) ev)"
| "transition (Editing_commit git details branch) ev =
     (case ev of
        Commit_edited message \<Rightarrow>
          \<lparr>state = Committing git details branch message,
           effects = [Commit_only branch message (onMain git)]\<rparr>
      | _ \<Rightarrow> invalid (Editing_commit git details branch) ev)"
| "transition (Committing git details branch message) ev =
     (case ev of
        Commit_done \<Rightarrow>
          \<lparr>state = Post_commit_checking_pr (git\<lparr>onMain := False\<rparr>) details branch,
           effects = [Check_existing_pr branch]\<rparr>
      | _ \<Rightarrow> invalid (Committing git details branch message) ev)"
| "transition (Post_commit_checking_pr git details branch) ev =
     (case ev of
        Pr_exists prUrl \<Rightarrow>
          \<lparr>state = Post_commit git details branch (Some prUrl),
           effects = [Prompt_post_commit (Some prUrl)]\<rparr>
      | No_pr \<Rightarrow>
          \<lparr>state = Post_commit git details branch None, effects = [Prompt_post_commit None]\<rparr>
      | _ \<Rightarrow> invalid (Post_commit_checking_pr git details branch) ev)"
| "transition (Post_commit git details branch prUrl) ev =
     (case ev of
        Post_commit_choice choice \<Rightarrow>
          (case choice of
             Choice_create_pr \<Rightarrow>
               \<lparr>state = Pushing git branch details PostPush_check_pr, effects = [Push_branch branch]\<rparr>
           | Choice_push_only \<Rightarrow>
               \<lparr>state = Pushing git branch details PostPush_done, effects = [Push_branch branch]\<rparr>
           | Choice_commit_more \<Rightarrow>
               \<lparr>state = Collecting_files git, effects = [Collect_files git]\<rparr>
           | Choice_done \<Rightarrow> \<lparr>state = Done ''Committed locally.'', effects = []\<rparr>)
      | _ \<Rightarrow> invalid (Post_commit git details branch prUrl) ev)"
| "transition (Pushing git branch details postPush) ev =
     (case ev of
        Push_done \<Rightarrow>
          if postPush = PostPush_check_pr
          then \<lparr>state = Checking_pr git details branch, effects = [Check_existing_pr branch]\<rparr>
          else \<lparr>state = Done ''Pushed.'', effects = []\<rparr>
      | _ \<Rightarrow> invalid (Pushing git branch details postPush) ev)"
| "transition (Checking_pr git details branch) ev =
     (case ev of
        Pr_exists prUrl \<Rightarrow>
          \<lparr>state = Confirming_merge git branch prUrl,
           effects = [Log_pr_exists prUrl, Prompt_confirm_merge prUrl]\<rparr>
      | No_pr \<Rightarrow>
          \<lparr>state = Confirming_pr git details branch,
           effects = [Show_pr_details details, Prompt_create_pr details]\<rparr>
      | _ \<Rightarrow> invalid (Checking_pr git details branch) ev)"
| "transition (Confirming_pr git details branch) ev =
     (case ev of
        User_cancelled \<Rightarrow> \<lparr>state = Cancelled ''Cancelled.'', effects = []\<rparr>
      | Confirm_pr accepted \<Rightarrow>
          if \<not> accepted
          then \<lparr>state = Done ''Done.'', effects = [Log_pr_skip branch]\<rparr>
          else \<lparr>state = Creating_pr git details branch, effects = [Create_full_pr branch details]\<rparr>
      | _ \<Rightarrow> invalid (Confirming_pr git details branch) ev)"
| "transition (Creating_pr git details branch) ev =
     (case ev of
        Pr_created prUrl \<Rightarrow>
          \<lparr>state = Confirming_merge git branch prUrl,
           effects = [Log_pr_created prUrl, Prompt_confirm_merge prUrl]\<rparr>
      | _ \<Rightarrow> invalid (Creating_pr git details branch) ev)"
| "transition (Confirming_merge git branch prUrl) ev =
     (case ev of
        User_cancelled \<Rightarrow> \<lparr>state = Cancelled ''Cancelled.'', effects = []\<rparr>
      | Confirm_merge accepted \<Rightarrow>
          if \<not> accepted
          then \<lparr>state = Done (''PR open: '' @ prUrl),
                effects = [Log_merge_skip prUrl branch (onMain git)]\<rparr>
          else \<lparr>state = Merging git branch prUrl, effects = [Merge_and_cleanup prUrl (onMain git)]\<rparr>
      | _ \<Rightarrow> invalid (Confirming_merge git branch prUrl) ev)"
| "transition (Merging git branch prUrl) ev =
     (case ev of
        Merge_done prUrl' \<Rightarrow> \<lparr>state = Done (''Shipped! '' @ prUrl'), effects = []\<rparr>
      | _ \<Rightarrow> invalid (Merging git branch prUrl) ev)"
| "transition (Stack_committing git plan currentIndex) ev =
     (case ev of
        Stack_commit_done nextIndex \<Rightarrow>
          if nextIndex < int (length (groups plan))
          then \<lparr>state = Stack_committing git plan nextIndex,
                effects = [Execute_stack_commit (at_index (groups plan) nextIndex)
                             (plan_branchName plan) False False nextIndex]\<rparr>
          else
            (let actualBranch = (if onMain git then plan_branchName plan else currentBranch git);
                 details = \<lparr>branchName = actualBranch,
                            commitMessage = join [CHR 0x0A] (map group_commitMessage (groups plan)),
                            prTitle = plan_prTitle plan,
                            prBody = plan_prBody plan\<rparr>
             in \<lparr>state = Post_commit_checking_pr (git\<lparr>onMain := False\<rparr>) details actualBranch,
                 effects = [Check_existing_pr actualBranch]\<rparr>)
      | _ \<Rightarrow> invalid (Stack_committing git plan currentIndex) ev)"
| "transition (Done message) ev = invalid (Done message) ev"
| "transition (Cancelled message) ev = invalid (Cancelled message) ev"
| "transition (Error message) ev = invalid (Error message) ev"
| "transition Nothing_to_ship ev = invalid Nothing_to_ship ev"
| "transition (Merge_conflict git message) ev = invalid (Merge_conflict git message) ev"

section \<open>The effect executor: tool check\<close>

text \<open>
  The \<^verbatim>\<open>check_tools\<close> branch of \<^verbatim>\<open>EffectExecutor.execute\<close>. The answers of the external
  commands it runs are the fields of a record: the exit status of \<^verbatim>\<open>which gh\<close>, the
  output of \<^verbatim>\<open>git branch --show-current\<close>, the exit status of \<^verbatim>\<open>git diff --cached --quiet\<close>
  and of \<^verbatim>\<open>git diff --quiet\<close>, the output of \<^verbatim>\<open>git ls-files --others --exclude-standard\<close>,
  the exit status of \<^verbatim>\<open>git rev-parse --verify origin/<branch>\<close>, and the two commit counts
  (\<^verbatim>\<open>git rev-list --count\<close> against the branch's remote and against \<^verbatim>\<open>origin/main\<close>) as
  the integers \<^verbatim>\<open>parseInt\<close> reads.
\<close>

record ToolProbe =
  whichGh :: bool
  branchShowCurrent :: string
  diffCachedQuiet :: bool
  diffQuiet :: bool
  lsFilesOthers :: string
  revParseVerifyOrigin :: bool
  revListCountOriginBranch :: int
  revListCountOriginMain :: int

definition execute_check_tools :: "ToolProbe \<Rightarrow> Event" where
  "execute_check_tools probe =
     (if \<not> whichGh probe then User_cancelled
      else
        (let branch = branchShowCurrent probe;
             main = (branch = ''main'');
             staged = (\<not> diffCachedQuiet probe);
             unstaged = (\<not> diffQuiet probe);
             raw = lsFilesOthers probe;
             untracked = (length raw > 0);
             upstream = (\<not> main \<and> revParseVerifyOrigin probe);
             unpushed = (if \<not> main \<and> upstream then revListCountOriginBranch probe
                         else if \<not> main \<and> \<not> upstream then revListCountOriginMain probe
                         else 0);
             unmerged = (if \<not> main then revListCountOriginMain probe else 0)
         in Tools_ok \<lparr>currentBranch = branch, onMain = main, hasStaged = staged,
                      hasUnstaged = unstaged, hasUntracked = untracked,
                      hasChanges = (staged \<or> unstaged \<or> untracked), hasUpstream = upstream,
                      unpushedCount = unpushed, unmergedCount = unmerged, untrackedRaw = raw\<rparr>))"

section \<open>The run loop\<close>

text \<open>
  The driver loop \<^verbatim>\<open>while (!isTerminal(state)) { ...; next = transition(state, event);
  state = next.state; effects = next.effects }\<close>, with the events that the executor hands
  back given as a list. The result is the list of transitions taken, in order; the loop
  stops at a terminal state.
\<close>

fun run :: "State \<Rightarrow> Event list \<Rightarrow> Transition list" where
  "run s [] = []"
| "run s (ev # evs) =
     (if isTerminal s then []
      else (let t = transition s ev in t # run (state t) evs))"

text \<open>
  The effects that the loop hands to \<^verbatim>\<open>executor.execute\<close>. An iteration executes the
  effects held in the variable \<^verbatim>\<open>effects\<close> (at the start \<^verbatim>\<open>[{ kind: "check_tools" }]\<close>),
  then takes the transition and stores its effects for the next iteration. The loop
  condition \<^verbatim>\<open>!isTerminal(state)\<close> is tested before that next iteration, so the effects
  returned together with a terminal state are stored and never executed.
\<close>

fun run_executed :: "State \<Rightarrow> Effect list \<Rightarrow> Event list \<Rightarrow> Effect list" where
  "run_executed s effs [] = (if isTerminal s then [] else effs)"
| "run_executed s effs (ev # evs) =
     (if isTerminal s then []
      else (let t = transition s ev in effs @ run_executed (state t) (effects t) evs))"

text \<open>
  The same loop, recording with each transition whether staged work is pending when it
  is taken: a \<^verbatim>\<open>stage_files\<close> effect has been emitted by an earlier transition and no
  commit has completed since. The executor reports a completed \<^verbatim>\<open>git commit\<close> with
  \<^verbatim>\<open>commit_done\<close> (effect \<^verbatim>\<open>commit_only\<close>) or \<^verbatim>\<open>stack_commit_done\<close>
  (effect \<^verbatim>\<open>execute_stack_commit\<close>).
\<close>

fun is_stage_files :: "Effect \<Rightarrow> bool" where
  "is_stage_files (Stage_files _) = True"
| "is_stage_files _ = False"

fun commit_performed :: "Event \<Rightarrow> bool" where
  "commit_performed Commit_done = True"
| "commit_performed (Stack_commit_done _) = True"
| "commit_performed _ = False"

definition staged_next :: "bool \<Rightarrow> Event \<Rightarrow> Transition \<Rightarrow> bool" where
  "staged_next staged ev t =
     (if list_ex is_stage_files (effects t) then True
      else if commit_performed ev then False
      else staged)"

fun run_staged :: "bool \<Rightarrow> State \<Rightarrow> Event list \<Rightarrow> (bool \<times> Transition) list" where
  "run_staged staged s [] = []"
| "run_staged staged s (ev # evs) =
     (if isTerminal s then []
      else (let t = transition s ev
            in (staged, t) # run_staged (staged_next staged ev t) (state t) evs))"

text \<open>
  The states in which staged work can be pending: from \<^verbatim>\<open>staging_files\<close> up to
  \<^verbatim>\<open>committing\<close>, and the terminal states that end a run there.
\<close>

fun in_staged_phase :: "State \<Rightarrow> bool" where
  "in_staged_phase (Staging_files _ _) = True"
| "in_staged_phase (Getting_diff _) = True"
| "in_staged_phase (Generating_details _ _) = True"
| "in_staged_phase (Confirming_branch _ _) = True"
| "in_staged_phase (Confirming_commit _ _ _) = True"
| "in_staged_phase (Editing_commit _ _ _) = True"
| "in_staged_phase (Committing _ _ _ _) = True"
| "in_staged_phase s = isTerminal s"

text \<open>Concrete values used to evaluate the definitions.\<close>

definition feature_git :: GitContext where
  "feature_git =
     \<lparr>currentBranch = ''feat-thing'', onMain = False, hasStaged = False, hasUnstaged = True,
      hasUntracked = False, hasChanges = True, hasUpstream = False, unpushedCount = 0,
      unmergedCount = 0, untrackedRaw = []\<rparr>"

definition main_git :: GitContext where
  "main_git =
     \<lparr>currentBranch = ''main'', onMain = True, hasStaged = False, hasUnstaged = True,
      hasUntracked = False, hasChanges = True, hasUpstream = False, unpushedCount = 0,
      unmergedCount = 0, untrackedRaw = []\<rparr>"

definition clean_git :: GitContext where
  "clean_git =
     \<lparr>currentBranch = ''feat-x'', onMain = False, hasStaged = True, hasUnstaged = True,
      hasUntracked = True, hasChanges = False, hasUpstream = True, unpushedCount = 0,
      unmergedCount = 0, untrackedRaw = ''notes.txt''\<rparr>"

definition two_group_plan :: StackPlan where
  "two_group_plan =
     \<lparr>groups = [\<lparr>files = [''a.ts''], group_commitMessage = ''feat: a''\<rparr>,
                \<lparr>files = [''b.ts''], group_commitMessage = ''fix: b''\<rparr>],
      plan_branchName = ''feat-stack'', plan_prTitle = ''Stack'', plan_prBody = ''Two commits''\<rparr>"

definition empty_plan :: StackPlan where
  "empty_plan =
     \<lparr>groups = [], plan_branchName = ''feat-stack'', plan_prTitle = ''Stack'', plan_prBody = ''None''\<rparr>"

definition sample_details :: CommitDetails where
  "sample_details =
     \<lparr>branchName = ''feat-foo'', commitMessage = ''feat: add foo'', prTitle = ''feat: add foo'',
      prBody = ''Added foo''\<rparr>"

text \<open>
  A run on a feature branch with an unstaged change: the file is picked and staged, the
  commit details are generated, and the user chooses \<^verbatim>\<open>Cancel\<close> at the commit prompt.
  Each event is one the executor returns for the effects of the transition before it.
\<close>

definition cancel_after_staging :: "Event list" where
  "cancel_after_staging =
     [Tools_ok feature_git,
      Files_collected [\<lparr>path = ''a.ts'', status = Modified\<rparr>],
      Files_picked [''a.ts''],
      Files_staged ''1 file changed'',
      Diff_ready ''diff --git a/a.ts b/a.ts'',
      Details_generated sample_details,
      Commit_action Cancel]"

section \<open>Terminal states\<close>

text \<open>
  Claim C1. For every terminal state (done, cancelled, error, nothing_to_ship,
  merge_conflict) and every event, \<^const>\<open>transition\<close> returns the error state whose
  message is \<^verbatim>\<open>Unexpected event "<event kind>" in state "<state kind>"\<close>, with an empty
  effect list: terminal states reject every further event.
\<close>

theorem terminal_states_reject_every_event:
  \<open>isTerminal s \<Longrightarrow>
   transition s ev =
     \<lparr>state = Error (''Unexpected event "'' @ event_kind ev @ ''" in state "'' @ state_kind s @ ''"''),
      effects = []\<rparr>\<close>
  by (cases s) (simp_all add: invalid_def)

theorem terminal_states_reject_every_event_witness:
  \<open>isTerminal (Merge_conflict feature_git ''CONFLICT in file.ts'') \<and>
   transition (Merge_conflict feature_git ''CONFLICT in file.ts'') (Confirm_pull True) =
     \<lparr>state = Error ''Unexpected event "confirm_pull" in state "merge_conflict"'', effects = []\<rparr>\<close>
  using terminal_states_reject_every_event
          [of "Merge_conflict feature_git ''CONFLICT in file.ts''" "Confirm_pull True"]
  by simp

section \<open>Preflight and the pull check\<close>

text \<open>
  Claim C5. For every GitContext \<open>g\<close> with \<open>hasChanges = false\<close>, \<open>unpushedCount = 0\<close> and
  \<open>unmergedCount = 0\<close>, the transition of \<^verbatim>\<open>preflight\<close> on \<^verbatim>\<open>tools_ok(g)\<close> is the
  \<^verbatim>\<open>nothing_to_ship\<close> terminal state with no effects, whatever the other fields of \<open>g\<close>.
\<close>

theorem preflight_nothing_to_ship:
  "\<not> hasChanges g \<Longrightarrow> unpushedCount g = 0 \<Longrightarrow> unmergedCount g = 0 \<Longrightarrow>
   transition Preflight (Tools_ok g) = \<lparr>state = Nothing_to_ship, effects = []\<rparr>"
  by simp

theorem preflight_nothing_to_ship_witness:
  "\<not> hasChanges clean_git \<and> unpushedCount clean_git = 0 \<and> unmergedCount clean_git = 0 \<and>
   \<not> onMain clean_git \<and> hasUpstream clean_git \<and> hasStaged clean_git \<and>
   transition Preflight (Tools_ok clean_git) = \<lparr>state = Nothing_to_ship, effects = []\<rparr>"
  using preflight_nothing_to_ship [of clean_git]
  by (simp add: clean_git_def)

text \<open>
  Claim C6. A transition enters \<^verbatim>\<open>confirming_pull\<close> if and only if the state is
  \<^verbatim>\<open>checking_remote\<close> and the event is \<^verbatim>\<open>remote_status\<close> with \<open>behind > 0\<close>; the state
  entered carries the same GitContext and that count. With \<open>behind = 0\<close> the transition of
  \<^verbatim>\<open>checking_remote\<close> is \<^const>\<open>continueAfterPullCheck\<close> of the same GitContext.
\<close>

theorem confirming_pull_iff_behind:
  "(state (transition s ev) = Confirming_pull g b \<longleftrightarrow>
      s = Checking_remote g \<and> ev = Remote_status b \<and> 0 < b) \<and>
   transition (Checking_remote git) (Remote_status 0) = continueAfterPullCheck git"
  by (cases s; cases ev)
     (auto simp: invalid_def continueAfterPullCheck_def startStackCommitting_def Let_def
           split: CommitAction.splits PostCommitChoice.splits)

theorem confirming_pull_iff_behind_witness:
  "state (transition (Checking_remote feature_git) (Remote_status 3)) = Confirming_pull feature_git 3 \<and>
   state (transition (Checking_remote feature_git) (Remote_status 0)) \<noteq> Confirming_pull feature_git 0 \<and>
   transition (Checking_remote feature_git) (Remote_status 0) = continueAfterPullCheck feature_git"
  using confirming_pull_iff_behind [of "Checking_remote feature_git" "Remote_status 3" feature_git 3 feature_git]
        confirming_pull_iff_behind [of "Checking_remote feature_git" "Remote_status 0" feature_git 0 feature_git]
  by simp

section \<open>Committing\<close>

text \<open>
  Claim C8. For every \<^verbatim>\<open>committing\<close> state with context git, details, branchName and
  commitMessage, the transition on \<^verbatim>\<open>commit_done\<close> is \<^verbatim>\<open>post_commit_checking_pr\<close> whose
  GitContext is the input one with \<open>onMain\<close> set to false and every other field unchanged,
  whose details and branchName are the input values, with exactly one effect,
  \<^verbatim>\<open>check_existing_pr\<close> for that branchName.
\<close>

theorem committing_commit_done:
  "transition (Committing git details branch message) Commit_done =
     \<lparr>state = Post_commit_checking_pr
        \<lparr>currentBranch = currentBranch git, onMain = False, hasStaged = hasStaged git,
         hasUnstaged = hasUnstaged git, hasUntracked = hasUntracked git,
         hasChanges = hasChanges git, hasUpstream = hasUpstream git,
         unpushedCount = unpushedCount git, unmergedCount = unmergedCount git,
         untrackedRaw = untrackedRaw git\<rparr> details branch,
      effects = [Check_existing_pr branch]\<rparr>"
  by (cases git) simp

section \<open>User cancellation\<close>

text \<open>
  Claim C2, as the code has it. On \<^verbatim>\<open>user_cancelled\<close> the states \<^verbatim>\<open>picking_files\<close>,
  \<^verbatim>\<open>confirming_branch\<close>, \<^verbatim>\<open>confirming_pr\<close> and \<^verbatim>\<open>confirming_merge\<close> (and
  \<^verbatim>\<open>generating_details\<close>) yield the \<^verbatim>\<open>cancelled\<close> terminal state; in
  \<^verbatim>\<open>confirming_commit\<close> cancellation is the \<^verbatim>\<open>commit_action\<close> event with action
  \<^verbatim>\<open>cancel\<close>, which yields \<^verbatim>\<open>cancelled\<close>; and \<^verbatim>\<open>fast_path_generating_pr\<close> yields
  \<^verbatim>\<open>done\<close> with the message \<^verbatim>\<open>Branch pushed. Create PR manually.\<close> and no effects.
\<close>

theorem user_cancelled_outcomes:
  "transition (Picking_files git fs) User_cancelled =
     \<lparr>state = Cancelled ''Cancelled.'', effects = []\<rparr> \<and>
   transition (Confirming_branch git details) User_cancelled =
     \<lparr>state = Cancelled ''Cancelled.'', effects = [Unstage_all]\<rparr> \<and>
   transition (Confirming_pr git details branch) User_cancelled =
     \<lparr>state = Cancelled ''Cancelled.'', effects = []\<rparr> \<and>
   transition (Confirming_merge git branch prUrl) User_cancelled =
     \<lparr>state = Cancelled ''Cancelled.'', effects = []\<rparr> \<and>
   transition (Generating_details git diff) User_cancelled =
     \<lparr>state = Cancelled ''Aborted.'', effects = [Unstage_all]\<rparr> \<and>
   transition (Confirming_commit git details branch) (Commit_action Cancel) =
     \<lparr>state = Cancelled ''Aborted.'', effects = [Unstage_all]\<rparr> \<and>
   transition (Fast_path_generating_pr git diff) User_cancelled =
     \<lparr>state = Done ''Branch pushed. Create PR manually.'', effects = []\<rparr>"
  by simp

text \<open>
  Claim C2 as stated fails: in \<^verbatim>\<open>fast_path_generating_pr\<close> the event \<^verbatim>\<open>user_cancelled\<close>
  ends the run in \<^verbatim>\<open>done\<close>, not in \<^verbatim>\<open>cancelled\<close>.
\<close>

theorem user_cancelled_fast_path_generating_pr_counterexample:
  "state (transition (Fast_path_generating_pr feature_git ''diff --git a/a.ts b/a.ts'') User_cancelled) =
     Done ''Branch pushed. Create PR manually.'' \<and>
   state_kind (state (transition (Fast_path_generating_pr feature_git ''diff --git a/a.ts b/a.ts'')
                        User_cancelled)) \<noteq> ''cancelled''"
  by simp

text \<open>
  The executor answers a cancelled prompt with \<^verbatim>\<open>user_cancelled\<close> in
  \<^verbatim>\<open>prompt_confirm_pr\<close>, \<^verbatim>\<open>prompt_confirm_merge\<close> and \<^verbatim>\<open>prompt_commit_action\<close> as
  well. The states that wait for these prompts on the fast path, and \<^verbatim>\<open>confirming_commit\<close>,
  have no case for the event, and the transition is the error outcome.
\<close>

lemma user_cancelled_without_case:
  "transition (Fast_path_confirming_pr git prDetails) User_cancelled =
     invalid (Fast_path_confirming_pr git prDetails) User_cancelled \<and>
   transition (Fast_path_confirming_merge git prUrl) User_cancelled =
     invalid (Fast_path_confirming_merge git prUrl) User_cancelled \<and>
   transition (Confirming_commit git details branch) User_cancelled =
     invalid (Confirming_commit git details branch) User_cancelled"
  by simp

section \<open>Cancellation with cleanup\<close>

lemma run_staged_run: "map snd (run_staged staged s evs) = run s evs"
  by (induction evs arbitrary: staged s) (simp_all add: Let_def)

lemma staged_phase_step:
  "(staged \<longrightarrow> in_staged_phase s) \<Longrightarrow> \<not> isTerminal s \<Longrightarrow>
   (staged_next staged ev (transition s ev) \<longrightarrow> in_staged_phase (state (transition s ev)))"
  by (cases s; cases ev)
     (auto simp: invalid_def continueAfterPullCheck_def startStackCommitting_def Let_def
                 staged_next_def
           split: if_splits CommitAction.splits PostCommitChoice.splits)

lemma staged_phase_cancel:
  "in_staged_phase s \<Longrightarrow> state_kind (state (transition s ev)) = ''cancelled'' \<Longrightarrow>
   Unstage_all \<in> set (effects (transition s ev))"
  by (cases s; cases ev)
     (auto simp: invalid_def split: if_splits CommitAction.splits)

lemma run_staged_cleanup:
  "(staged \<longrightarrow> in_staged_phase s) \<Longrightarrow>
   \<forall>(st, t) \<in> set (run_staged staged s evs).
      st \<and> state_kind (state t) = ''cancelled'' \<longrightarrow> Unstage_all \<in> set (effects t)"
proof (induction evs arbitrary: staged s)
  case Nil
  then show ?case by simp
next
  case (Cons ev evs)
  show ?case
  proof (cases "isTerminal s")
    case True
    then show ?thesis by simp
  next
    case False
    let ?t = "transition s ev"
    have inv: "staged_next staged ev ?t \<longrightarrow> in_staged_phase (state ?t)"
      using staged_phase_step [OF Cons.prems False] .
    have here: "staged \<and> state_kind (state ?t) = ''cancelled'' \<longrightarrow> Unstage_all \<in> set (effects ?t)"
      using staged_phase_cancel Cons.prems by blast
    from Cons.IH [OF inv] here False show ?thesis
      by (simp add: Let_def)
  qed
qed

text \<open>
  The transition function attaches the cleanup: in every run from \<^verbatim>\<open>preflight\<close>,
  whatever events the executor hands back, every transition that produces the
  \<^verbatim>\<open>cancelled\<close> state while staged work is pending (a \<^verbatim>\<open>stage_files\<close> effect was
  emitted earlier in the run and no commit has completed since) has \<^verbatim>\<open>unstage_all\<close>
  among the effects it returns.
\<close>

lemma cancelled_after_staging_unstages:
  "\<forall>(staged, t) \<in> set (run_staged False Preflight evs).
      staged \<and> state_kind (state t) = ''cancelled'' \<longrightarrow> Unstage_all \<in> set (effects t)"
  by (rule run_staged_cleanup) simp

text \<open>
  The run loop does not execute it. \<^verbatim>\<open>unstage_all\<close> is returned only together with a
  \<^verbatim>\<open>cancelled\<close> state, and the loop stops at a terminal state before it executes the
  effects stored with it.
\<close>

lemma unstage_all_only_with_terminal:
  "Unstage_all \<in> set (effects (transition s ev)) \<Longrightarrow> isTerminal (state (transition s ev))"
  by (cases s; cases ev)
     (auto simp: invalid_def continueAfterPullCheck_def startStackCommitting_def Let_def
           split: if_splits CommitAction.splits PostCommitChoice.splits)

lemma run_executed_no_unstage_all:
  "isTerminal s \<or> Unstage_all \<notin> set effs \<Longrightarrow> Unstage_all \<notin> set (run_executed s effs evs)"
proof (induction evs arbitrary: s effs)
  case Nil
  then show ?case by auto
next
  case (Cons ev evs)
  show ?case
  proof (cases "isTerminal s")
    case True
    then show ?thesis by simp
  next
    case False
    let ?t = "transition s ev"
    have next_ok: "isTerminal (state ?t) \<or> Unstage_all \<notin> set (effects ?t)"
      using unstage_all_only_with_terminal by blast
    have here: "Unstage_all \<notin> set effs"
      using Cons.prems False by simp
    from Cons.IH [OF next_ok] here False show ?thesis
      by (simp add: Let_def)
  qed
qed

text \<open>
  Claim C3, evaluated on the code. The run \<^const>\<open>cancel_after_staging\<close> from
  \<^verbatim>\<open>preflight\<close> executes \<^verbatim>\<open>stage_files\<close> and ends, before any commit, with a transition
  into \<^verbatim>\<open>cancelled\<close> that returns \<^verbatim>\<open>unstage_all\<close>. The effect is among those returned
  with the transition, as the claim says, but the run loop never executes it, in this run
  or in any other: the staged file stays staged, and the working tree does not return to
  its state before the run.
\<close>

theorem unstage_all_returned_but_never_executed:
  "state (last (run Preflight cancel_after_staging)) = Cancelled ''Aborted.'' \<and>
   effects (last (run Preflight cancel_after_staging)) = [Unstage_all] \<and>
   fst (last (run_staged False Preflight cancel_after_staging)) \<and>
   Stage_files [''a.ts''] \<in> set (run_executed Preflight [Check_tools] cancel_after_staging) \<and>
   Unstage_all \<notin> set (run_executed Preflight [Check_tools] cancel_after_staging) \<and>
   Unstage_all \<notin> set (run_executed Preflight [Check_tools] evs)"
proof -
  have never: "Unstage_all \<notin> set (run_executed Preflight [Check_tools] evs)" for evs
    by (rule run_executed_no_unstage_all) simp
  have trace: "state (last (run Preflight cancel_after_staging)) = Cancelled ''Aborted.'' \<and>
      effects (last (run Preflight cancel_after_staging)) = [Unstage_all]"
    by (simp add: cancel_after_staging_def feature_git_def continueAfterPullCheck_def)
  have pending: "fst (last (run_staged False Preflight cancel_after_staging))"
    by (simp add: cancel_after_staging_def feature_git_def continueAfterPullCheck_def
          staged_next_def)
  have staged: "Stage_files [''a.ts''] \<in> set (run_executed Preflight [Check_tools] cancel_after_staging)"
    by (simp add: cancel_after_staging_def feature_git_def continueAfterPullCheck_def)
  from never trace pending staged show ?thesis by blast
qed

section \<open>Stacked commits\<close>

lemma at_index_nat: "i < length xs \<Longrightarrow> at_index xs (int i) = Some (xs ! i)"
  by (simp add: at_index_def)

lemma run_stack_tail:
  "j \<le> length (groups plan) \<Longrightarrow>
   run (Stack_committing git plan c)
       (map (\<lambda>i. Stack_commit_done (int i)) [j..<Suc (length (groups plan))]) =
     map (\<lambda>i. \<lparr>state = Stack_committing git plan (int i),
                effects = [Execute_stack_commit (Some (groups plan ! i)) (plan_branchName plan)
                             False False (int i)]\<rparr>) [j..<length (groups plan)] @
     [\<lparr>state = Post_commit_checking_pr (git\<lparr>onMain := False\<rparr>)
         \<lparr>branchName = (if onMain git then plan_branchName plan else currentBranch git),
          commitMessage = join [CHR 0x0A] (map group_commitMessage (groups plan)),
          prTitle = plan_prTitle plan, prBody = plan_prBody plan\<rparr>
         (if onMain git then plan_branchName plan else currentBranch git),
       effects = [Check_existing_pr (if onMain git then plan_branchName plan else currentBranch git)]\<rparr>]"
proof (induction "length (groups plan) - j" arbitrary: j c)
  case 0
  then have j: "j = length (groups plan)" by simp
  have "[j..<Suc (length (groups plan))] = [j]" using j by simp
  then show ?case using j by (simp add: Let_def)
next
  case (Suc n)
  then have lt: "j < length (groups plan)" by simp
  have split: "[j..<Suc (length (groups plan))] = j # [Suc j..<Suc (length (groups plan))]"
    using lt by (simp add: upt_conv_Cons)
  have split': "[j..<length (groups plan)] = j # [Suc j..<length (groups plan)]"
    using lt by (simp add: upt_conv_Cons)
  have n: "n = length (groups plan) - Suc j" using Suc.hyps(2) by simp
  have le: "Suc j \<le> length (groups plan)" using lt by simp
  show ?case
    unfolding split split'
    using Suc.hyps(1) [OF n le, of "int j"] lt
    by (simp add: Let_def at_index_nat del: upt_Suc)
qed

text \<open>
  Claim C4. For every StackPlan with \<open>N \<ge> 1\<close> groups that enters through
  \<^verbatim>\<open>stack_plan_generated\<close> in \<^verbatim>\<open>picking_files\<close>, and \<^verbatim>\<open>stack_commit_done\<close> events whose
  nextIndex is the previous index plus one (1, ..., N), the run takes N transitions into
  \<^verbatim>\<open>stack_committing\<close>, each with exactly one \<^verbatim>\<open>execute_stack_commit\<close> effect, for the
  groups in order with indices 0, ..., N-1 (the first with isFirst set and the context's
  onMain), and then one transition into \<^verbatim>\<open>post_commit_checking_pr\<close> whose
  CommitDetails carry the groups' commit messages joined in order with a newline.
\<close>

theorem stack_plan_run:
  assumes "groups plan \<noteq> []"
  shows "run (Picking_files git fs)
       (Stack_plan_generated plan #
        map (\<lambda>i. Stack_commit_done (int i)) [1..<Suc (length (groups plan))]) =
     map (\<lambda>i. \<lparr>state = Stack_committing git plan (int i),
                effects = [Execute_stack_commit (Some (groups plan ! i)) (plan_branchName plan)
                             (i = 0) (i = 0 \<and> onMain git) (int i)]\<rparr>) [0..<length (groups plan)] @
     [\<lparr>state = Post_commit_checking_pr (git\<lparr>onMain := False\<rparr>)
         \<lparr>branchName = (if onMain git then plan_branchName plan else currentBranch git),
          commitMessage = join [CHR 0x0A] (map group_commitMessage (groups plan)),
          prTitle = plan_prTitle plan, prBody = plan_prBody plan\<rparr>
         (if onMain git then plan_branchName plan else currentBranch git),
       effects = [Check_existing_pr (if onMain git then plan_branchName plan else currentBranch git)]\<rparr>]"
proof -
  have pos: "0 < length (groups plan)" using assms by simp
  have le: "1 \<le> length (groups plan)" using assms by (cases "groups plan") simp_all
  have split: "[0..<length (groups plan)] = 0 # [1..<length (groups plan)]"
    using pos by (simp add: upt_conv_Cons)
  have first: "transition (Picking_files git fs) (Stack_plan_generated plan) =
      \<lparr>state = Stack_committing git plan 0,
       effects = [Execute_stack_commit (Some (groups plan ! 0)) (plan_branchName plan)
                    True (onMain git) 0]\<rparr>"
    using pos at_index_nat [of 0 "groups plan"] by (simp add: startStackCommitting_def)
  have rest: "map (\<lambda>i. \<lparr>state = Stack_committing git plan (int i),
                effects = [Execute_stack_commit (Some (groups plan ! i)) (plan_branchName plan)
                             (i = 0) (i = 0 \<and> onMain git) (int i)]\<rparr>) [1..<length (groups plan)]
     = map (\<lambda>i. \<lparr>state = Stack_committing git plan (int i),
                effects = [Execute_stack_commit (Some (groups plan ! i)) (plan_branchName plan)
                             False False (int i)]\<rparr>) [1..<length (groups plan)]"
    by simp
  show ?thesis
    unfolding split
    using run_stack_tail [OF le, of git 0] first rest
    by (simp add: Let_def del: upt_Suc transition.simps)
qed

theorem stack_plan_run_witness:
  "groups two_group_plan \<noteq> [] \<and>
   map effects (run (Picking_files main_git [])
                  [Stack_plan_generated two_group_plan, Stack_commit_done 1, Stack_commit_done 2]) =
     [[Execute_stack_commit (Some \<lparr>files = [''a.ts''], group_commitMessage = ''feat: a''\<rparr>)
         ''feat-stack'' True True 0],
      [Execute_stack_commit (Some \<lparr>files = [''b.ts''], group_commitMessage = ''fix: b''\<rparr>)
         ''feat-stack'' False False 1],
      [Check_existing_pr ''feat-stack'']] \<and>
   map (state_kind \<circ> state) (run (Picking_files main_git [])
                  [Stack_plan_generated two_group_plan, Stack_commit_done 1, Stack_commit_done 2]) =
     [''stack_committing'', ''stack_committing'', ''post_commit_checking_pr''] \<and>
   join [CHR 0x0A] (map group_commitMessage (groups two_group_plan)) =
     ''feat: a'' @ [CHR 0x0A] @ ''fix: b''"
  using stack_plan_run [of two_group_plan main_git "[]"]
  by (simp add: two_group_plan_def main_git_def upt_conv_Cons)

text \<open>
  Claim C9. \<^verbatim>\<open>picking_files\<close> on \<^verbatim>\<open>stack_plan_generated\<close> reads \<^verbatim>\<open>plan.groups[0]\<close>
  without a guard. For a plan with at least one group the read is in bounds and the
  \<^verbatim>\<open>execute_stack_commit\<close> effect carries that group, isFirst = true and index = 0. For a
  plan with no group the read gives \<^verbatim>\<open>undefined\<close> and the effect emitted carries no
  group, so the transition yields a well-formed effect only for plans with at least one
  group. In \<^verbatim>\<open>stack_committing\<close> the read at nextIndex happens under the guard
  \<^verbatim>\<open>nextIndex < plan.groups.length\<close> and is in bounds for the indices \<open>0 \<le> nextIndex\<close>
  the executor produces.
\<close>

theorem stack_plan_group_reads:
  "(groups plan \<noteq> [] \<longrightarrow>
      transition (Picking_files git fs) (Stack_plan_generated plan) =
        \<lparr>state = Stack_committing git plan 0,
         effects = [Execute_stack_commit (Some (groups plan ! 0)) (plan_branchName plan)
                      True (onMain git) 0]\<rparr>) \<and>
   (groups plan = [] \<longrightarrow>
      transition (Picking_files git fs) (Stack_plan_generated plan) =
        \<lparr>state = Stack_committing git plan 0,
         effects = [Execute_stack_commit None (plan_branchName plan) True (onMain git) 0]\<rparr>) \<and>
   (0 \<le> nextIndex \<and> nextIndex < int (length (groups plan)) \<longrightarrow>
      transition (Stack_committing git plan currentIndex) (Stack_commit_done nextIndex) =
        \<lparr>state = Stack_committing git plan nextIndex,
         effects = [Execute_stack_commit (Some (groups plan ! nat nextIndex)) (plan_branchName plan)
                      False False nextIndex]\<rparr>)"
  by (simp add: startStackCommitting_def at_index_def)

theorem stack_plan_group_reads_witness:
  "groups two_group_plan \<noteq> [] \<and>
   effects (transition (Picking_files feature_git []) (Stack_plan_generated two_group_plan)) =
     [Execute_stack_commit (Some \<lparr>files = [''a.ts''], group_commitMessage = ''feat: a''\<rparr>)
        ''feat-stack'' True False 0] \<and>
   groups empty_plan = [] \<and>
   effects (transition (Picking_files feature_git []) (Stack_plan_generated empty_plan)) =
     [Execute_stack_commit None ''feat-stack'' True False 0] \<and>
   (0::int) \<le> 1 \<and> 1 < int (length (groups two_group_plan)) \<and>
   effects (transition (Stack_committing feature_git two_group_plan 0) (Stack_commit_done 1)) =
     [Execute_stack_commit (Some \<lparr>files = [''b.ts''], group_commitMessage = ''fix: b''\<rparr>)
        ''feat-stack'' False False 1]"
  using stack_plan_group_reads [of two_group_plan feature_git "[]" 1 0]
        stack_plan_group_reads [of empty_plan feature_git "[]" 1 0]
  by (simp add: two_group_plan_def empty_plan_def feature_git_def)

text \<open>
  Claim C10. When stack committing completes (\<^verbatim>\<open>stack_commit_done\<close> with nextIndex not
  below the number of groups) in a state whose \<open>git.onMain\<close> is false, the branchName of
  the synthesized CommitDetails, the branchName of \<^verbatim>\<open>post_commit_checking_pr\<close> and the
  branch of its \<^verbatim>\<open>check_existing_pr\<close> effect are \<open>git.currentBranch\<close>, not the plan's
  branchName; the plan's branchName is used when \<open>git.onMain\<close> is true.
\<close>

theorem stack_completion_branch:
  assumes "\<not> nextIndex < int (length (groups plan))"
  shows "(\<not> onMain git \<longrightarrow>
      transition (Stack_committing git plan currentIndex) (Stack_commit_done nextIndex) =
        \<lparr>state = Post_commit_checking_pr (git\<lparr>onMain := False\<rparr>)
           \<lparr>branchName = currentBranch git,
            commitMessage = join [CHR 0x0A] (map group_commitMessage (groups plan)),
            prTitle = plan_prTitle plan, prBody = plan_prBody plan\<rparr>
           (currentBranch git),
         effects = [Check_existing_pr (currentBranch git)]\<rparr>) \<and>
   (onMain git \<longrightarrow>
      transition (Stack_committing git plan currentIndex) (Stack_commit_done nextIndex) =
        \<lparr>state = Post_commit_checking_pr (git\<lparr>onMain := False\<rparr>)
           \<lparr>branchName = plan_branchName plan,
            commitMessage = join [CHR 0x0A] (map group_commitMessage (groups plan)),
            prTitle = plan_prTitle plan, prBody = plan_prBody plan\<rparr>
           (plan_branchName plan),
         effects = [Check_existing_pr (plan_branchName plan)]\<rparr>)"
  using assms by (simp add: Let_def)

theorem stack_completion_branch_witness:
  "\<not> (2::int) < int (length (groups two_group_plan)) \<and>
   \<not> onMain feature_git \<and> currentBranch feature_git \<noteq> plan_branchName two_group_plan \<and>
   effects (transition (Stack_committing feature_git two_group_plan 1) (Stack_commit_done 2)) =
     [Check_existing_pr ''feat-thing''] \<and>
   onMain main_git \<and>
   effects (transition (Stack_committing main_git two_group_plan 1) (Stack_commit_done 2)) =
     [Check_existing_pr ''feat-stack'']"
  using stack_completion_branch [of 2 two_group_plan feature_git 1]
        stack_completion_branch [of 2 two_group_plan main_git 1]
  by (simp add: two_group_plan_def feature_git_def main_git_def)

section \<open>Missing tool\<close>

text \<open>
  Claim C7, evaluated on the code. When \<^verbatim>\<open>which gh\<close> fails, the tool check returns the
  event \<^verbatim>\<open>user_cancelled\<close>; \<^verbatim>\<open>preflight\<close> handles only \<^verbatim>\<open>tools_ok\<close>, so the transition
  is the error outcome of \<^const>\<open>invalid\<close>, not \<^verbatim>\<open>cancelled\<close>.
\<close>

theorem missing_gh_ends_in_error:
  \<open>execute_check_tools (probe\<lparr>whichGh := False\<rparr>) = User_cancelled \<and>
   transition Preflight (execute_check_tools (probe\<lparr>whichGh := False\<rparr>)) =
     \<lparr>state = Error ''Unexpected event "user_cancelled" in state "preflight"'', effects = []\<rparr> \<and>
   state_kind (state (transition Preflight (execute_check_tools (probe\<lparr>whichGh := False\<rparr>)))) \<noteq>
     ''cancelled''\<close>
  by (simp add: execute_check_tools_def invalid_def)


end
